theory Spec2Isabelle
  imports Main "HOL-Library.Sublist"
begin

section \<open>Strings\<close>

text \<open>
  A Python \<open>str\<close> is a sequence of Unicode code points, so a string is a list of
  code points (\<open>nat\<close>); \<open>length\<close> counts what \<open>len\<close> counts.  \<open>ustr\<close> turns an
  ASCII literal into that representation.  The operator \<open>k in q\<close> on strings is
  \<^const>\<open>sublist\<close> (\<open>q = ps @ k @ ss\<close> for some \<open>ps\<close>, \<open>ss\<close>).
\<close>

type_synonym pystr = "nat list"

definition ustr :: "string \<Rightarrow> pystr" where
  "ustr s = map of_char s"

text \<open>Exceptions that leave a function of the program.\<close>

datatype py_exn = IndexError | KeyError | CsvError | PltError | OSError | AgentFailure

section \<open>The keyword router (agent.py)\<close>

record AgentState =
  question :: pystr
  intent :: "pystr option"
  answer :: "pystr option"

definition kpi_keywords :: "pystr list" where
  "kpi_keywords = map ustr [''revenue'', ''sales'', ''units'', ''trend'', ''top'', ''leaderboard'']"

definition sentiment_keywords :: "pystr list" where
  "sentiment_keywords = map ustr [''sentiment'', ''feedback'', ''review'']"

text \<open>
  \<open>node_plan\<close>: the two \<open>if\<close> statements run one after the other on the same
  variable.  \<open>str.lower\<close> is the Unicode lower-casing of the interpreter, a table
  that is not part of the repository: it is the parameter \<open>lower\<close>.
\<close>

definition node_plan :: "(pystr \<Rightarrow> pystr) \<Rightarrow> AgentState \<Rightarrow> AgentState" where
  "node_plan lower state =
     (let q = lower (AgentState.question state);
          intent0 = ustr ''fallback'';
          intent1 = (if list_ex (\<lambda>k. sublist k q) kpi_keywords then ustr ''kpi'' else intent0);
          intent2 = (if list_ex (\<lambda>k. sublist k q) sentiment_keywords then ustr ''sentiment'' else intent1)
      in state\<lparr>intent := Some intent2\<rparr>)"


definition kpi_answer :: pystr where
  "kpi_answer = ustr ''KPI branch: I would compute metrics (revenue/units) and return a chart.''"

definition sentiment_answer :: pystr where
  "sentiment_answer =
     ustr ''Sentiment branch: I would aggregate daily sentiment from feedback data and plot a trend.''"

text \<open>The apostrophe of the fallback text is U+2019 (code point 8217).\<close>

definition fallback_answer :: pystr where
  "fallback_answer =
     ustr ''Sorry, I didn'' @ [8217] @
     ustr ''t understand. Try asking about revenue trend, top products, store leaderboard, or sentiment.''"

definition node_kpi :: "AgentState \<Rightarrow> AgentState" where
  "node_kpi state = state\<lparr>answer := Some kpi_answer\<rparr>"

definition node_sentiment :: "AgentState \<Rightarrow> AgentState" where
  "node_sentiment state = state\<lparr>answer := Some sentiment_answer\<rparr>"

definition node_fallback :: "AgentState \<Rightarrow> AgentState" where
  "node_fallback state = state\<lparr>answer := Some fallback_answer\<rparr>"



text \<open>
  \<open>AgentState(question=q)\<close>: the two optional fields default to \<open>None\<close>.
\<close>

definition new_AgentState :: "pystr \<Rightarrow> AgentState" where
  "new_AgentState q = \<lparr>question = q, intent = None, answer = None\<rparr>"

text \<open>
  An instance of \<open>lower\<close> for the examples: on ASCII text \<open>str.lower\<close> maps
  \<open>A\<close>..\<open>Z\<close> to \<open>a\<close>..\<open>z\<close> and leaves every other character alone.
\<close>

definition ascii_lower :: "pystr \<Rightarrow> pystr" where
  "ascii_lower s = map (\<lambda>c. if 65 \<le> c \<and> c \<le> 90 then c + 32 else c) s"

section \<open>Text helpers of the SQL variant (agent_with_sql.py)\<close>

text \<open>
  \<open>str.strip()\<close> removes the characters for which \<open>str.isspace\<close> holds from both
  ends; \<open>str.splitlines()\<close> cuts at the line boundaries of Python (\<open>\r\n\<close> counts as
  one) and gives no empty last line.
\<close>

definition isspace :: "nat \<Rightarrow> bool" where
  "isspace c \<longleftrightarrow>
     (9 \<le> c \<and> c \<le> 13) \<or> (28 \<le> c \<and> c \<le> 32) \<or> c = 133 \<or> c = 160 \<or> c = 5760 \<or>
     (8192 \<le> c \<and> c \<le> 8202) \<or> c = 8232 \<or> c = 8233 \<or> c = 8239 \<or> c = 8287 \<or> c = 12288"

definition strip :: "pystr \<Rightarrow> pystr" where
  "strip s = rev (dropWhile isspace (rev (dropWhile isspace s)))"

definition is_linebreak :: "nat \<Rightarrow> bool" where
  "is_linebreak c \<longleftrightarrow>
     (10 \<le> c \<and> c \<le> 13) \<or> (28 \<le> c \<and> c \<le> 30) \<or> c = 133 \<or> c = 8232 \<or> c = 8233"

fun splitlines_from :: "pystr \<Rightarrow> pystr \<Rightarrow> pystr list" where
  "splitlines_from cur [] = (if cur = [] then [] else [cur])"
| "splitlines_from cur (c # cs) =
     (if is_linebreak c
      then cur # splitlines_from [] (if c = 13 \<and> cs \<noteq> [] \<and> hd cs = 10 then tl cs else cs)
      else splitlines_from (cur @ [c]) cs)"

definition splitlines :: "pystr \<Rightarrow> pystr list" where
  "splitlines s = splitlines_from [] s"

text \<open>
  \<open>re.sub(r"^```(csv|CSV)?", "", s, flags=re.M)\<close>: with \<open>re.M\<close> the anchor \<open>^\<close>
  matches at the start of the string and right after every \<open>\n\<close>.  The flag \<open>bol\<close>
  says whether the current position is such a place.  A match removes the three
  backquotes and, greedily, a following \<open>csv\<close> or \<open>CSV\<close>; the search goes on
  after the match, which is not a line start.
\<close>

definition fence :: pystr where
  "fence = ustr ''```''"

definition drop_tag :: "pystr \<Rightarrow> pystr" where
  "drop_tag r = (if prefix (ustr ''csv'') r \<or> prefix (ustr ''CSV'') r then drop 3 r else r)"

function sub_fence_open :: "bool \<Rightarrow> pystr \<Rightarrow> pystr" where
  "sub_fence_open bol [] = []"
| "sub_fence_open bol (c # cs) =
     (if bol \<and> prefix fence (c # cs)
      then sub_fence_open False (drop_tag (drop 3 (c # cs)))
      else c # sub_fence_open (c = 10) cs)"
  by pat_completeness auto
termination
proof (relation "measure (\<lambda>(bol, s). length s)")
  fix bol :: bool and c :: nat and cs :: pystr
  have "length (drop_tag r) \<le> length r" for r
    by (simp add: drop_tag_def)
  from this [of "drop 3 (c # cs)"] show "((False, drop_tag (drop 3 (c # cs))), (bol, c # cs)) \<in> measure (\<lambda>(bol, s). length s)"
    by simp
qed simp_all

text \<open>
  \<open>re.sub(r"```$", "", s, flags=re.M)\<close>: with \<open>re.M\<close> the anchor \<open>$\<close> matches at
  the end of the string and right before every \<open>\n\<close>.
\<close>

function sub_fence_close :: "pystr \<Rightarrow> pystr" where
  "sub_fence_close [] = []"
| "sub_fence_close (c # cs) =
     (if prefix fence (c # cs) \<and> (drop 3 (c # cs) = [] \<or> hd (drop 3 (c # cs)) = 10)
      then sub_fence_close (drop 3 (c # cs))
      else c # sub_fence_close cs)"
  by pat_completeness auto
termination
  by (relation "measure length") simp_all

text \<open>
  Iterating over \<open>io.StringIO(s)\<close> gives the lines of \<open>s\<close>, each with its ending
  \<open>\n\<close>; only \<open>\n\<close> ends a line there.
\<close>

fun readlines :: "pystr \<Rightarrow> pystr list" where
  "readlines [] = []"
| "readlines (c # cs) =
     (if c = 10 then [c] # readlines cs
      else case readlines cs of [] \<Rightarrow> [[c]] | l # ls \<Rightarrow> (c # l) # ls)"

section \<open>The reader of the csv module\<close>

text \<open>
  \<open>csv.reader\<close> with the default dialect (\<open>excel\<close>): delimiter \<open>,\<close>, quote
  character \<open>"\<close>, doubled quotes, no escape character, not strict, no skipping of
  initial spaces, minimal quoting.  The reader is the state machine of the interpreter's
  csv module, fed one character at a time and an end-of-line mark (\<open>None\<close>) after every
  line; the states that only an escape character reaches are left out.  A field longer
  than the field limit and a character after a bare line end are errors.  (Since Python
  3.11 a NUL character is an ordinary character for the reader.)
\<close>

datatype ParserState =
  START_RECORD | START_FIELD | IN_FIELD | IN_QUOTED_FIELD | QUOTE_IN_QUOTED_FIELD | EAT_CRNL

record ReaderObj =
  rd_state :: ParserState
  rd_fields :: "pystr list"
  rd_field :: pystr

definition delimiter :: nat where
  "delimiter = 44"

definition quotechar :: nat where
  "quotechar = 34"

definition field_limit :: nat where
  "field_limit = 131072"

definition parse_reset :: ReaderObj where
  "parse_reset = \<lparr>rd_state = START_RECORD, rd_fields = [], rd_field = []\<rparr>"

definition parse_save_field :: "ReaderObj \<Rightarrow> ReaderObj" where
  "parse_save_field r = r\<lparr>rd_fields := rd_fields r @ [rd_field r], rd_field := []\<rparr>"

definition parse_add_char :: "ReaderObj \<Rightarrow> nat \<Rightarrow> py_exn + ReaderObj" where
  "parse_add_char r c =
     (if length (rd_field r) \<ge> field_limit then Inl CsvError
      else Inr (r\<lparr>rd_field := rd_field r @ [c]\<rparr>))"

definition then_state :: "ParserState \<Rightarrow> py_exn + ReaderObj \<Rightarrow> py_exn + ReaderObj" where
  "then_state s x = (case x of Inl e \<Rightarrow> Inl e | Inr r \<Rightarrow> Inr (r\<lparr>rd_state := s\<rparr>))"

text \<open>The case \<open>START_FIELD\<close>, which \<open>START_RECORD\<close> falls through to.\<close>

definition start_field :: "ReaderObj \<Rightarrow> nat option \<Rightarrow> py_exn + ReaderObj" where
  "start_field r c =
     (case c of
        None \<Rightarrow> Inr ((parse_save_field r)\<lparr>rd_state := START_RECORD\<rparr>)
      | Some ch \<Rightarrow>
          if ch = 10 \<or> ch = 13 then Inr ((parse_save_field r)\<lparr>rd_state := EAT_CRNL\<rparr>)
          else if ch = quotechar then Inr (r\<lparr>rd_state := IN_QUOTED_FIELD\<rparr>)
          else if ch = delimiter then Inr (parse_save_field r)
          else then_state IN_FIELD (parse_add_char r ch))"

definition parse_process_char :: "ReaderObj \<Rightarrow> nat option \<Rightarrow> py_exn + ReaderObj" where
  "parse_process_char r c =
     (case rd_state r of
        START_RECORD \<Rightarrow>
          (case c of
             None \<Rightarrow> Inr r
           | Some ch \<Rightarrow>
               if ch = 10 \<or> ch = 13 then Inr (r\<lparr>rd_state := EAT_CRNL\<rparr>)
               else start_field (r\<lparr>rd_state := START_FIELD\<rparr>) c)
      | START_FIELD \<Rightarrow> start_field r c
      | IN_FIELD \<Rightarrow>
          (case c of
             None \<Rightarrow> Inr ((parse_save_field r)\<lparr>rd_state := START_RECORD\<rparr>)
           | Some ch \<Rightarrow>
               if ch = 10 \<or> ch = 13 then Inr ((parse_save_field r)\<lparr>rd_state := EAT_CRNL\<rparr>)
               else if ch = delimiter then Inr ((parse_save_field r)\<lparr>rd_state := START_FIELD\<rparr>)
               else parse_add_char r ch)
      | IN_QUOTED_FIELD \<Rightarrow>
          (case c of
             None \<Rightarrow> Inr r
           | Some ch \<Rightarrow>
               if ch = quotechar then Inr (r\<lparr>rd_state := QUOTE_IN_QUOTED_FIELD\<rparr>)
               else parse_add_char r ch)
      | QUOTE_IN_QUOTED_FIELD \<Rightarrow>
          (case c of
             None \<Rightarrow> Inr ((parse_save_field r)\<lparr>rd_state := START_RECORD\<rparr>)
           | Some ch \<Rightarrow>
               if ch = quotechar then then_state IN_QUOTED_FIELD (parse_add_char r ch)
               else if ch = delimiter then Inr ((parse_save_field r)\<lparr>rd_state := START_FIELD\<rparr>)
               else if ch = 10 \<or> ch = 13 then Inr ((parse_save_field r)\<lparr>rd_state := EAT_CRNL\<rparr>)
               else then_state IN_FIELD (parse_add_char r ch))
      | EAT_CRNL \<Rightarrow>
          (case c of
             None \<Rightarrow> Inr (r\<lparr>rd_state := START_RECORD\<rparr>)
           | Some ch \<Rightarrow> if ch = 10 \<or> ch = 13 then Inr r else Inl CsvError))"

text \<open>One line: its characters, then the end-of-line mark.\<close>

fun process_chars :: "ReaderObj \<Rightarrow> pystr \<Rightarrow> py_exn + ReaderObj" where
  "process_chars r [] = Inr r"
| "process_chars r (c # cs) =
     (case parse_process_char r (Some c) of Inl e \<Rightarrow> Inl e | Inr r' \<Rightarrow> process_chars r' cs)"

definition process_line :: "ReaderObj \<Rightarrow> pystr \<Rightarrow> py_exn + ReaderObj" where
  "process_line r line =
     (case process_chars r line of Inl e \<Rightarrow> Inl e | Inr r' \<Rightarrow> parse_process_char r' None)"

text \<open>
  \<open>list(reader)\<close>: \<open>rows\<close> are the records returned so far, \<open>r\<close> is the reader inside
  the current record.  A record is complete when a line leaves the machine in
  \<open>START_RECORD\<close>; the reader is reset before the next one.  At the end of the input an
  open field, or an open quoted field, is saved as the last record.
\<close>

fun reader_rows :: "ReaderObj \<Rightarrow> pystr list list \<Rightarrow> pystr list \<Rightarrow> py_exn + pystr list list" where
  "reader_rows r rows [] =
     (if rd_field r \<noteq> [] \<or> rd_state r = IN_QUOTED_FIELD
      then Inr (rows @ [rd_fields (parse_save_field r)])
      else Inr rows)"
| "reader_rows r rows (line # lines) =
     (case process_line r line of
        Inl e \<Rightarrow> Inl e
      | Inr r' \<Rightarrow>
          if rd_state r' \<noteq> START_RECORD then reader_rows r' rows lines
          else reader_rows parse_reset (rows @ [rd_fields r']) lines)"

definition csv_reader_list :: "pystr \<Rightarrow> py_exn + pystr list list" where
  "csv_reader_list s = reader_rows parse_reset [] (readlines s)"

section \<open>Table extraction (agent_with_sql.py)\<close>

definition first_line :: "pystr \<Rightarrow> pystr" where
  "first_line text = (case splitlines (strip text) of [] \<Rightarrow> [] | l # _ \<Rightarrow> l)"

definition cleaned :: "pystr \<Rightarrow> pystr" where
  "cleaned text = sub_fence_close (sub_fence_open True (strip text))"

text \<open>
  \<open>parse_csv_from_text\<close>: the check of the first line (44 is the comma) comes
  first, on the text as it is; the fences are removed after it.  Every exception of the
  reader is caught and gives \<open>None\<close>.
\<close>

definition parse_csv_from_text :: "pystr \<Rightarrow> (pystr list \<times> pystr list list) option" where
  "parse_csv_from_text text =
     (if count_list (first_line text) 44 < 1 then None
      else case csv_reader_list (cleaned text) of
             Inl e \<Rightarrow> None
           | Inr [] \<Rightarrow> None
           | Inr (header # data) \<Rightarrow>
               if list_ex (\<lambda>r. length r \<noteq> length header) data then None
               else Some (header, data))"

section \<open>Chart selection (agent_with_sql.py)\<close>

text \<open>
  \<open>float\<close> and \<open>datetime.fromisoformat\<close> belong to the interpreter: they are the
  parameters \<open>pyfloat\<close> and \<open>fromisoformat\<close>, with \<open>None\<close> for the exception they
  raise on a string they do not accept.

  The plotting library is a parameter too.  Its calls are recorded in the order in which
  they are made, and \<open>plt done c\<close> says whether the call \<open>c\<close> returns (\<open>True\<close>) or
  raises (\<open>False\<close>) after the calls \<open>done\<close>.
\<close>

datatype ('d, 'f) plt_call =
  Figure
| Plot "'d list" "'f list"
| Bar "pystr list" "'f list"
| Xticks
| Xlabel pystr
| Ylabel pystr
| Title pystr
| Tight_layout
| Savefig pystr
| Close

type_synonym ('d, 'f) plt = "('d, 'f) plt_call list \<Rightarrow> ('d, 'f) plt_call \<Rightarrow> bool"

text \<open>
  A sequence of statements that call the library: the calls are made one after the other
  until one raises.  The result is the calls made, the raising one included, and whether
  all of them returned.
\<close>

fun run_calls ::
  "('d, 'f) plt \<Rightarrow> ('d, 'f) plt_call list \<Rightarrow> ('d, 'f) plt_call list
     \<Rightarrow> ('d, 'f) plt_call list \<times> bool" where
  "run_calls plt done [] = (done, True)"
| "run_calls plt done (c # cs) =
     (if plt done c then run_calls plt (done @ [c]) cs else (done @ [c], False))"

text \<open>Every call of a sequence returns, each one after those before it.\<close>

fun all_return :: "('d, 'f) plt \<Rightarrow> ('d, 'f) plt_call list \<Rightarrow> ('d, 'f) plt_call list \<Rightarrow> bool" where
  "all_return plt done [] = True"
| "all_return plt done (c # cs) = (plt done c \<and> all_return plt (done @ [c]) cs)"

definition OUT_DIR :: pystr where
  "OUT_DIR = ustr ''./outputs''"

text \<open>\<open>os.path.join\<close> of a directory without a final slash and a relative name.\<close>

definition path_join :: "pystr \<Rightarrow> pystr \<Rightarrow> pystr" where
  "path_join d f = d @ ustr ''/'' @ f"

text \<open>\<open>r[i]\<close> for \<open>i \<ge> 0\<close>: \<open>None\<close> is the IndexError.\<close>

definition item :: "'a list \<Rightarrow> nat \<Rightarrow> 'a option" where
  "item xs i = (if i < length xs then Some (xs ! i) else None)"

text \<open>
  \<open>maybe_chart\<close> gives the recorded plotting calls and the returned path, or the
  exception that leaves it.  The column \<open>x\<close> and the call \<open>plt.figure\<close> are outside
  every \<open>try\<close>.  The second \<open>try\<close> holds the conversion of the dates and the calls
  that draw the line plot: an exception of any of them leads to the \<open>except\<close> branch,
  which draws the bar chart and is itself unguarded.  The last line (layout, saving,
  closing) is outside every \<open>try\<close> as well.
\<close>

definition maybe_chart ::
  "('d, 'f) plt \<Rightarrow> (pystr \<Rightarrow> 'f option) \<Rightarrow> (pystr \<Rightarrow> 'd option) \<Rightarrow> pystr list
     \<Rightarrow> pystr list list \<Rightarrow> pystr \<Rightarrow> py_exn + (('d, 'f) plt_call list \<times> pystr option)" where
  "maybe_chart plt pyfloat fromisoformat header rows q =
     (if length header < 2 \<or> rows = [] then Inr ([], None)
      else (case those (map (\<lambda>r. Option.bind (item r 1) pyfloat) rows) of
              None \<Rightarrow> Inr ([], None)
            | Some y \<Rightarrow>
                (case those (map (\<lambda>r. item r 0) rows) of
                   None \<Rightarrow> Inl IndexError
                 | Some x \<Rightarrow>
                     (let (fig, fig_ok) = run_calls plt [] [Figure]
                      in if \<not> fig_ok then Inl PltError
                         else
                           (let (tried, tried_ok) =
                                  (case those (map fromisoformat x) of
                                     None \<Rightarrow> (fig, False)
                                   | Some xdt \<Rightarrow>
                                       run_calls plt fig
                                         [Plot xdt y, Xlabel (header ! 0), Ylabel (header ! 1),
                                          Title q]);
                                (drawn, drawn_ok) =
                                  (if tried_ok then (tried, True)
                                   else run_calls plt tried
                                          [Bar (take 30 x) (take 30 y), Xticks,
                                           Ylabel (header ! 1), Title q])
                            in if \<not> drawn_ok then Inl PltError
                               else
                                 (let out_png = path_join OUT_DIR (ustr ''chart.png'');
                                      (saved, saved_ok) =
                                        run_calls plt drawn [Tight_layout, Savefig out_png, Close]
                                  in if saved_ok then Inr (saved, Some out_png)
                                     else Inl PltError))))))"

section \<open>The nodes of the SQL variant (agent_with_sql.py)\<close>

record SqlAgentState =
  question :: pystr
  raw_output :: "pystr option"
  result_csv_path :: "pystr option"
  chart_png_path :: "pystr option"
  message :: "pystr option"

definition new_SqlAgentState :: "pystr \<Rightarrow> SqlAgentState" where
  "new_SqlAgentState q =
     \<lparr>question = q, raw_output = None, result_csv_path = None, chart_png_path = None,
      message = None\<rparr>"

definition SAFETY_PREFIX :: pystr where
  "SAFETY_PREFIX =
     ustr ''Use only SELECT. Never modify data. '' @
     ustr ''If grouping by day, use DATE(Date) AS Date. '' @
     ustr ''When feasible, return results as CSV (first line headers, comma-separated).''"

text \<open>
  \<open>node_agent\<close>: the SQL agent is the external collaborator \<open>sql_agent\<close>, which gives
  the text of its answer or fails.
\<close>

definition node_agent :: "(pystr \<Rightarrow> py_exn + pystr) \<Rightarrow> SqlAgentState \<Rightarrow> py_exn + SqlAgentState" where
  "node_agent sql_agent state =
     (case sql_agent (SAFETY_PREFIX @ [10, 10] @ ustr ''Question: '' @ question state) of
        Inl e \<Rightarrow> Inl e
      | Inr out \<Rightarrow> Inr (state\<lparr>raw_output := Some out\<rparr>))"

text \<open>
  What \<open>node_parse_and_visualize\<close> does besides returning a state: the table it saves
  and the plotting calls of \<open>maybe_chart\<close>.
\<close>

datatype ('d, 'f) effect =
  Save_table "pystr list" "pystr list list" pystr
| Plt "('d, 'f) plt_call"

text \<open>
  \<open>save_table\<close> opens the file and writes the table.  The file system is the parameter
  \<open>file_write\<close>: whether writing this table to this path returns; otherwise the
  exception leaves \<open>save_table\<close>, which has no \<open>try\<close>.
\<close>

definition save_table ::
  "(pystr list \<Rightarrow> pystr list list \<Rightarrow> pystr \<Rightarrow> bool) \<Rightarrow> pystr list \<Rightarrow> pystr list list \<Rightarrow> pystr
     \<Rightarrow> py_exn + ('d, 'f) effect" where
  "save_table file_write header rows path =
     (if file_write header rows path then Inr (Save_table header rows path) else Inl OSError)"

text \<open>
  \<open>node_parse_and_visualize\<close> has no \<open>try\<close>: an exception of \<open>save_table\<close> or of
  \<open>maybe_chart\<close> leaves the node before the message is set.
\<close>

definition node_parse_and_visualize ::
  "(pystr list \<Rightarrow> pystr list list \<Rightarrow> pystr \<Rightarrow> bool) \<Rightarrow> ('d, 'f) plt \<Rightarrow> (pystr \<Rightarrow> 'f option)
     \<Rightarrow> (pystr \<Rightarrow> 'd option) \<Rightarrow> SqlAgentState
     \<Rightarrow> py_exn + (SqlAgentState \<times> ('d, 'f) effect list)" where
  "node_parse_and_visualize file_write plt pyfloat fromisoformat state =
     (case raw_output state of
        None \<Rightarrow> Inr (state\<lparr>message := Some (ustr ''No output from agent.'')\<rparr>, [])
      | Some raw \<Rightarrow>
          (if raw = [] then Inr (state\<lparr>message := Some (ustr ''No output from agent.'')\<rparr>, [])
           else (case parse_csv_from_text raw of
                   None \<Rightarrow> Inr (state\<lparr>message := raw_output state\<rparr>, [])
                 | Some (header, rows) \<Rightarrow>
                     (let out_csv = path_join OUT_DIR (ustr ''result.csv'')
                      in (case save_table file_write header rows out_csv of
                            Inl e \<Rightarrow> Inl e
                          | Inr saved \<Rightarrow>
                              (case maybe_chart plt pyfloat fromisoformat header rows
                                      (question state) of
                                 Inl e \<Rightarrow> Inl e
                               | Inr (calls, chart_path) \<Rightarrow>
                                   (let msg = ustr ''Saved '' @ out_csv @
                                          (case chart_path of
                                             None \<Rightarrow> []
                                           | Some p \<Rightarrow>
                                               (if p = [] then [] else ustr '' and '' @ p))
                                    in Inr (state\<lparr>result_csv_path := Some out_csv,
                                                  chart_png_path := chart_path,
                                                  message := Some msg\<rparr>,
                                            saved # map Plt calls))))))))"


section \<open>Instances of the parameters for the examples\<close>

text \<open>
  \<open>example_float\<close> and \<open>example_date\<close> accept the strings of the examples, which
  \<open>float\<close> and \<open>datetime.fromisoformat\<close> accept, and reject every other string.
\<close>

definition example_float :: "pystr \<Rightarrow> int option" where
  "example_float s =
     (if s = ustr ''100.0'' then Some 100 else if s = ustr ''150.0'' then Some 150
      else if s = ustr ''1'' then Some 1 else None)"

definition example_date :: "pystr \<Rightarrow> (nat \<times> nat \<times> nat) option" where
  "example_date s =
     (if s = ustr ''2024-01-01'' then Some (2024, 1, 1)
      else if s = ustr ''2024-01-02'' then Some (2024, 1, 2)
      else if s = ustr ''0001-01-01'' then Some (1, 1, 1) else None)"

text \<open>
  \<open>example_plt\<close> follows matplotlib on two drawings that it cannot lay out: a line plot
  with a date in year 1, whose axis would start before the first date there is, and a
  title that holds the unfinished formula \<open>$x_$\<close>.  For them the layout call raises;
  every other call returns.
\<close>

definition no_layout :: "(nat \<times> nat \<times> nat, int) plt_call \<Rightarrow> bool" where
  "no_layout c =
     (case c of
        Plot xs ys \<Rightarrow> list_ex (\<lambda>d. fst d = 1) xs
      | Title t \<Rightarrow> sublist (ustr ''$x_$'') t
      | _ \<Rightarrow> False)"

definition example_plt :: "(nat \<times> nat \<times> nat, int) plt" where
  "example_plt done c = (if c = Tight_layout then \<not> list_ex no_layout done else True)"

text \<open>\<open>example_write\<close>: every file can be written.\<close>

definition example_write :: "pystr list \<Rightarrow> pystr list list \<Rightarrow> pystr \<Rightarrow> bool" where
  "example_write header rows path = True"

text \<open>
  \<open>example_agent\<close> answers every prompt with the same table of two dated rows.
\<close>

definition example_csv :: pystr where
  "example_csv =
     ustr ''Date,Revenue'' @ [10] @ ustr ''2024-01-01,100.0'' @ [10] @ ustr ''2024-01-02,150.0''"

definition example_agent :: "pystr \<Rightarrow> py_exn + pystr" where
  "example_agent prompt = Inr example_csv"

section \<open>Properties of the keyword router\<close>


text \<open>
  Claim C1.  The two rules of the classifier are applied in the order in which they are
  written and the later one overrides the earlier one: a question whose lower-cased text
  contains a KPI keyword and no sentiment keyword gets the intent \<open>kpi\<close>; a
  question whose lower-cased text contains a keyword of both lists gets \<open>sentiment\<close>.
\<close>

theorem node_plan_last_match_wins:
  "(list_ex (\<lambda>k. sublist k (lower (AgentState.question st))) kpi_keywords \<and>
    \<not> list_ex (\<lambda>k. sublist k (lower (AgentState.question st))) sentiment_keywords
      \<longrightarrow> intent (node_plan lower st) = Some (ustr ''kpi'')) \<and>
   (list_ex (\<lambda>k. sublist k (lower (AgentState.question st))) kpi_keywords \<and>
    list_ex (\<lambda>k. sublist k (lower (AgentState.question st))) sentiment_keywords
      \<longrightarrow> intent (node_plan lower st) = Some (ustr ''sentiment''))"
  by (simp add: node_plan_def Let_def)

lemmas sub_ev = ustr_def ascii_lower_def new_AgentState_def kpi_keywords_def sentiment_keywords_def
  sublist_Cons_right

theorem node_plan_last_match_wins_witness:
  "list_ex (\<lambda>k. sublist k (ascii_lower (ustr ''Show revenue trend for last 30 days''))) kpi_keywords \<and>
   \<not> list_ex (\<lambda>k. sublist k (ascii_lower (ustr ''Show revenue trend for last 30 days''))) sentiment_keywords \<and>
   intent (node_plan ascii_lower (new_AgentState (ustr ''Show revenue trend for last 30 days'')))
     = Some (ustr ''kpi'') \<and>
   list_ex (\<lambda>k. sublist k (ascii_lower (ustr ''Show revenue trend and sentiment feedback''))) kpi_keywords \<and>
   list_ex (\<lambda>k. sublist k (ascii_lower (ustr ''Show revenue trend and sentiment feedback''))) sentiment_keywords \<and>
   intent (node_plan ascii_lower (new_AgentState (ustr ''Show revenue trend and sentiment feedback'')))
     = Some (ustr ''sentiment'')"
proof -
  have k1: "list_ex (\<lambda>k. sublist k (ascii_lower (ustr ''Show revenue trend for last 30 days''))) kpi_keywords"
    by (simp add: sub_ev)
  have s1: "\<not> list_ex (\<lambda>k. sublist k (ascii_lower (ustr ''Show revenue trend for last 30 days''))) sentiment_keywords"
    by (simp add: sub_ev)
  have k2: "list_ex (\<lambda>k. sublist k (ascii_lower (ustr ''Show revenue trend and sentiment feedback''))) kpi_keywords"
    by (simp add: sub_ev)
  have s2: "list_ex (\<lambda>k. sublist k (ascii_lower (ustr ''Show revenue trend and sentiment feedback''))) sentiment_keywords"
    by (simp add: sub_ev)
  from node_plan_last_match_wins
    [of ascii_lower "new_AgentState (ustr ''Show revenue trend for last 30 days'')"]
    node_plan_last_match_wins
    [of ascii_lower "new_AgentState (ustr ''Show revenue trend and sentiment feedback'')"]
    k1 s1 k2 s2
  show ?thesis by (simp add: new_AgentState_def)
qed



section \<open>Properties of the chart selection\<close>

lemma those_None_iff: "those xs = None \<longleftrightarrow> None \<in> set xs"
  by (induction xs) (auto split: option.splits)

lemma those_map_total:
  "(\<And>x. x \<in> set xs \<Longrightarrow> f x \<noteq> None) \<Longrightarrow> those (map f xs) = Some (map (\<lambda>x. the (f x)) xs)"
  by (induction xs) (auto split: option.splits)

lemma out_png_eq: "path_join OUT_DIR (ustr ''chart.png'') = ustr ''./outputs/chart.png''"
  by (simp add: path_join_def OUT_DIR_def ustr_def)

lemma column_y:
  assumes "\<And>r. r \<in> set rows \<Longrightarrow> 1 < length r \<and> pyfloat (r ! 1) \<noteq> None"
  shows "those (map (\<lambda>r. Option.bind (item r 1) pyfloat) rows)
           = Some (map (\<lambda>r. the (pyfloat (r ! 1))) rows)"
proof -
  have "those (map (\<lambda>r. Option.bind (item r 1) pyfloat) rows)
          = Some (map (\<lambda>r. the (Option.bind (item r 1) pyfloat)) rows)"
    using assms by (intro those_map_total) (auto simp: item_def)
  also have "map (\<lambda>r. the (Option.bind (item r 1) pyfloat)) rows
          = map (\<lambda>r. the (pyfloat (r ! 1))) rows"
    using assms by (auto simp: item_def)
  finally show ?thesis .
qed

lemma column_x:
  assumes "\<And>r. r \<in> set rows \<Longrightarrow> 0 < length r"
  shows "those (map (\<lambda>r. item r 0) rows) = Some (map (\<lambda>r. r ! 0) rows)"
proof -
  have "those (map (\<lambda>r. item r 0) rows) = Some (map (\<lambda>r. the (item r 0)) rows)"
    using assms by (intro those_map_total) (auto simp: item_def)
  also have "map (\<lambda>r. the (item r 0)) rows = map (\<lambda>r. r ! 0) rows"
    using assms by (auto simp: item_def)
  finally show ?thesis .
qed


lemma run_calls_raise:
  "\<not> all_return plt done cs \<Longrightarrow> snd (run_calls plt done cs) = False"
  by (induction cs arbitrary: "done") simp_all

text \<open>
  Claim C4.  If the second column of one row of the table is not accepted by \<open>float\<close>,
  \<open>maybe_chart\<close> returns \<open>None\<close> and makes no plotting call, whatever the other
  rows and the first column hold and whatever the plotting library does.
\<close>

theorem non_numeric_second_column_no_chart:
  assumes "r \<in> set rows" and "1 < length r" and "pyfloat (r ! 1) = None"
  shows "maybe_chart plt pyfloat fromisoformat header rows q = Inr ([], None)"
proof -
  have "Option.bind (item r 1) pyfloat = None"
    using assms by (simp add: item_def)
  with assms(1) have "None \<in> set (map (\<lambda>r. Option.bind (item r 1) pyfloat) rows)"
    by force
  then have "those (map (\<lambda>r. Option.bind (item r 1) pyfloat) rows) = None"
    by (simp only: those_None_iff)
  then show ?thesis
    by (simp add: maybe_chart_def)
qed

theorem non_numeric_second_column_no_chart_witness:
  "example_float (ustr ''great'') = None \<and>
   maybe_chart example_plt example_float example_date [ustr ''City'', ustr ''Rating'']
     [[ustr ''NYC'', ustr ''great'']] (ustr ''Ratings by city'') = Inr ([], None)"
proof -
  have h: "example_float ([ustr ''NYC'', ustr ''great''] ! 1) = None"
    by (simp add: example_float_def ustr_def)
  from non_numeric_second_column_no_chart
    [of "[ustr ''NYC'', ustr ''great'']" "[[ustr ''NYC'', ustr ''great'']]" example_float
        example_plt example_date "[ustr ''City'', ustr ''Rating'']" "ustr ''Ratings by city''",
     OF _ _ h] h
  show ?thesis by simp
qed

text \<open>
  Claim C5.  For a table with at least two columns and at least one row, whose second
  column is numeric in every row and whose first column is a date in every row, and
  provided that each plotting call of the line plot returns, the chart is the line plot
  of the dates against the numbers, one point for each row, in the order of the rows.
\<close>

theorem all_dates_time_series:
  assumes "2 \<le> length header" and "rows \<noteq> []"
    and "\<forall>r\<in>set rows. length r = length header"
    and "\<forall>r\<in>set rows. pyfloat (r ! 1) \<noteq> None"
    and "\<forall>r\<in>set rows. fromisoformat (r ! 0) \<noteq> None"
    and "all_return plt []
           [Figure,
            Plot (map (\<lambda>r. the (fromisoformat (r ! 0))) rows)
                 (map (\<lambda>r. the (pyfloat (r ! 1))) rows),
            Xlabel (header ! 0), Ylabel (header ! 1), Title q,
            Tight_layout, Savefig (ustr ''./outputs/chart.png''), Close]"
  shows "maybe_chart plt pyfloat fromisoformat header rows q =
           Inr ([Figure,
                 Plot (map (\<lambda>r. the (fromisoformat (r ! 0))) rows)
                      (map (\<lambda>r. the (pyfloat (r ! 1))) rows),
                 Xlabel (header ! 0), Ylabel (header ! 1), Title q,
                 Tight_layout, Savefig (ustr ''./outputs/chart.png''), Close],
                Some (ustr ''./outputs/chart.png'')) \<and>
         length (map (\<lambda>r. the (fromisoformat (r ! 0))) rows) = length rows \<and>
         length (map (\<lambda>r. the (pyfloat (r ! 1))) rows) = length rows"
proof -
  have y: "those (map (\<lambda>r. Option.bind (item r 1) pyfloat) rows)
             = Some (map (\<lambda>r. the (pyfloat (r ! 1))) rows)"
    using assms by (intro column_y) auto
  have x: "those (map (\<lambda>r. item r 0) rows) = Some (map (\<lambda>r. r ! 0) rows)"
    using assms by (intro column_x) auto
  have "those (map fromisoformat (map (\<lambda>r. r ! 0) rows))
          = Some (map (\<lambda>v. the (fromisoformat v)) (map (\<lambda>r. r ! 0) rows))"
    using assms by (intro those_map_total) auto
  then have d: "those (map fromisoformat (map (\<lambda>r. r ! 0) rows))
          = Some (map (\<lambda>r. the (fromisoformat (r ! 0))) rows)"
    by (simp add: comp_def)
  from assms(1,2,6) show ?thesis
    by (simp add: maybe_chart_def x y [unfolded One_nat_def] d [unfolded map_map] Let_def
        out_png_eq)
qed


lemma example_values:
  "example_float (ustr ''100.0'') = Some 100" "example_float (ustr ''150.0'') = Some 150"
  "example_float (ustr ''1'') = Some 1"
  "example_date (ustr ''2024-01-01'') = Some (2024, 1, 1)"
  "example_date (ustr ''2024-01-02'') = Some (2024, 1, 2)"
  "example_date (ustr ''0001-01-01'') = Some (1, 1, 1)"
  "example_date (ustr ''NYC'') = None" "example_date (ustr ''a'') = None"
  by (simp_all add: example_float_def example_date_def ustr_def)

lemmas plt_ev = example_plt_def no_layout_def ustr_def sublist_Cons_right

theorem all_dates_time_series_witness:
  "maybe_chart example_plt example_float example_date [ustr ''Date'', ustr ''Revenue'']
     [[ustr ''2024-01-01'', ustr ''100.0''], [ustr ''2024-01-02'', ustr ''150.0'']]
     (ustr ''Show revenue trend'') =
   Inr ([Figure, Plot [(2024, 1, 1), (2024, 1, 2)] [100, 150],
         Xlabel (ustr ''Date''), Ylabel (ustr ''Revenue''), Title (ustr ''Show revenue trend''),
         Tight_layout, Savefig (ustr ''./outputs/chart.png''), Close],
        Some (ustr ''./outputs/chart.png''))"
proof -
  let ?rows = "[[ustr ''2024-01-01'', ustr ''100.0''], [ustr ''2024-01-02'', ustr ''150.0'']]"
  let ?header = "[ustr ''Date'', ustr ''Revenue'']"
  have h1: "2 \<le> length ?header" and h2: "?rows \<noteq> []"
    and h3: "\<forall>r\<in>set ?rows. length r = length ?header"
    by simp_all
  have h4: "\<forall>r\<in>set ?rows. example_float (r ! 1) \<noteq> None"
    by (simp add: example_values)
  have h5: "\<forall>r\<in>set ?rows. example_date (r ! 0) \<noteq> None"
    by (simp add: example_values)
  have m: "map (\<lambda>r. the (example_date (r ! 0))) ?rows = [(2024, 1, 1), (2024, 1, 2)]"
    "map (\<lambda>r. the (example_float (r ! 1))) ?rows = [100, 150]"
    by (simp_all add: example_values)
  have h6: "all_return example_plt []
           [Figure,
            Plot (map (\<lambda>r. the (example_date (r ! 0))) ?rows)
                 (map (\<lambda>r. the (example_float (r ! 1))) ?rows),
            Xlabel (?header ! 0), Ylabel (?header ! 1), Title (ustr ''Show revenue trend''),
            Tight_layout, Savefig (ustr ''./outputs/chart.png''), Close]"
    unfolding m by (simp add: plt_ev)
  from all_dates_time_series [OF h1 h2 h3 h4 h5 h6]
  show ?thesis
    by (simp add: example_values)
qed

text \<open>
  The proviso is needed: the layout call is outside every \<open>try\<close>, and for the table
  with the one row \<open>0001-01-01\<close>, \<open>1\<close> it raises, so that \<open>maybe_chart\<close> raises
  and returns no chart.
\<close>

theorem time_series_layout_raises:
  "example_float (ustr ''1'') = Some 1 \<and>
   example_date (ustr ''0001-01-01'') = Some (1, 1, 1) \<and>
   maybe_chart example_plt example_float example_date [ustr ''Date'', ustr ''V'']
     [[ustr ''0001-01-01'', ustr ''1'']] (ustr ''Trend'') = Inl PltError"
  by (simp add: example_values maybe_chart_def item_def Let_def out_png_eq example_plt_def
      no_layout_def)

text \<open>
  Claim C6.  For a table with at least two columns, whose second column is numeric in
  every row and whose first column is not a date in some row, and provided that each
  plotting call of the bar chart returns, the chart is the bar chart of the first 30 rows
  (all of them when there are fewer), labelled with the first column as it is; 50 rows
  give 30 bars.
\<close>

theorem non_date_first_column_categorical:
  assumes "2 \<le> length header"
    and "\<forall>r\<in>set rows. length r = length header"
    and "\<forall>r\<in>set rows. pyfloat (r ! 1) \<noteq> None"
    and "\<exists>r\<in>set rows. fromisoformat (r ! 0) = None"
    and "all_return plt []
           [Figure,
            Bar (map (\<lambda>r. r ! 0) (take 30 rows))
                (map (\<lambda>r. the (pyfloat (r ! 1))) (take 30 rows)),
            Xticks, Ylabel (header ! 1), Title q,
            Tight_layout, Savefig (ustr ''./outputs/chart.png''), Close]"
  shows "maybe_chart plt pyfloat fromisoformat header rows q =
           Inr ([Figure,
                 Bar (map (\<lambda>r. r ! 0) (take 30 rows))
                     (map (\<lambda>r. the (pyfloat (r ! 1))) (take 30 rows)),
                 Xticks, Ylabel (header ! 1), Title q,
                 Tight_layout, Savefig (ustr ''./outputs/chart.png''), Close],
                Some (ustr ''./outputs/chart.png'')) \<and>
         length (take 30 rows) = min (length rows) 30 \<and>
         (length rows = 50 \<longrightarrow> length (map (\<lambda>r. r ! 0) (take 30 rows)) = 30)"
proof -
  from assms(4) have ne: "rows \<noteq> []" by auto
  have y: "those (map (\<lambda>r. Option.bind (item r 1) pyfloat) rows)
             = Some (map (\<lambda>r. the (pyfloat (r ! 1))) rows)"
    using assms by (intro column_y) auto
  have x: "those (map (\<lambda>r. item r 0) rows) = Some (map (\<lambda>r. r ! 0) rows)"
    using assms by (intro column_x) auto
  from assms(4) have "None \<in> set (map fromisoformat (map (\<lambda>r. r ! 0) rows))"
    by force
  then have d: "those (map fromisoformat (map (\<lambda>r. r ! 0) rows)) = None"
    by (simp only: those_None_iff)
  from assms(1,5) ne show ?thesis
    by (simp add: maybe_chart_def x y [unfolded One_nat_def] d [unfolded map_map] Let_def
        out_png_eq take_map min.commute)
qed

theorem non_date_first_column_categorical_witness:
  "length (replicate 50 [ustr ''NYC'', ustr ''100.0'']) = 50 \<and>
   example_date (ustr ''NYC'') = None \<and>
   maybe_chart example_plt example_float example_date [ustr ''City'', ustr ''Revenue'']
     (replicate 50 [ustr ''NYC'', ustr ''100.0'']) (ustr ''Revenue by city'') =
   Inr ([Figure, Bar (replicate 30 (ustr ''NYC'')) (replicate 30 100),
         Xticks, Ylabel (ustr ''Revenue''), Title (ustr ''Revenue by city''),
         Tight_layout, Savefig (ustr ''./outputs/chart.png''), Close],
        Some (ustr ''./outputs/chart.png''))"
proof -
  let ?rows = "replicate 50 [ustr ''NYC'', ustr ''100.0'']"
  let ?header = "[ustr ''City'', ustr ''Revenue'']"
  have h1: "2 \<le> length ?header"
    and h2: "\<forall>r\<in>set ?rows. length r = length ?header"
    by simp_all
  have h3: "\<forall>r\<in>set ?rows. example_float (r ! 1) \<noteq> None"
    by (simp add: example_values)
  have h4: "\<exists>r\<in>set ?rows. example_date (r ! 0) = None"
    by (simp add: example_values)
  have h5: "all_return example_plt []
           [Figure,
            Bar (map (\<lambda>r. r ! 0) (take 30 ?rows))
                (map (\<lambda>r. the (example_float (r ! 1))) (take 30 ?rows)),
            Xticks, Ylabel (?header ! 1), Title (ustr ''Revenue by city''),
            Tight_layout, Savefig (ustr ''./outputs/chart.png''), Close]"
    by (simp add: plt_ev)
  from non_date_first_column_categorical [OF h1 h2 h3 h4 h5]
  show ?thesis
    by (simp add: example_values)
qed

text \<open>
  The proviso is needed here too: with the title \<open>cost $x_$ now\<close> the layout call of
  the bar chart raises, and so does \<open>maybe_chart\<close>.
\<close>

lemma example_bar_raises:
  "maybe_chart example_plt example_float example_date [ustr ''City'', ustr ''V'']
     [[ustr ''a'', ustr ''1'']] (ustr ''cost $x_$ now'') = Inl PltError"
proof -
  have t: "sublist (ustr ''$x_$'') (ustr ''cost $x_$ now'')"
    by (simp add: ustr_def sublist_Cons_right)
  show ?thesis
    by (simp add: example_values maybe_chart_def item_def Let_def out_png_eq example_plt_def
        no_layout_def t)
qed

theorem bar_chart_layout_raises:
  "example_float (ustr ''1'') = Some 1 \<and>
   example_date (ustr ''a'') = None \<and>
   maybe_chart example_plt example_float example_date [ustr ''City'', ustr ''V'']
     [[ustr ''a'', ustr ''1'']] (ustr ''cost $x_$ now'') = Inl PltError"
  using example_bar_raises by (simp add: example_values)

section \<open>Properties of the nodes and of the table extraction\<close>

lemmas parse_ev =
  parse_csv_from_text_def first_line_def cleaned_def strip_def splitlines_def ustr_def
  isspace_def is_linebreak_def fence_def drop_tag_def csv_reader_list_def process_line_def
  parse_process_char_def start_field_def then_state_def parse_add_char_def
  parse_save_field_def parse_reset_def field_limit_def delimiter_def quotechar_def



lemma node_parse_and_visualize_result:
  assumes "node_parse_and_visualize file_write plt pyfloat fromisoformat st = Inr (s', eff)"
  shows "message s' \<noteq> None \<and> question s' = question st \<and> raw_output s' = raw_output st \<and>
     (Option.bind (raw_output st) parse_csv_from_text = None \<longrightarrow>
        result_csv_path s' = result_csv_path st \<and> chart_png_path s' = chart_png_path st)"
proof (cases "raw_output st")
  case None
  with assms show ?thesis by (auto simp: node_parse_and_visualize_def)
next
  case (Some raw)
  note raw = this
  show ?thesis
  proof (cases "raw = []")
    case True
    with assms raw show ?thesis by (auto simp: node_parse_and_visualize_def)
  next
    case False
    note ne = this
    show ?thesis
    proof (cases "parse_csv_from_text raw")
      case None
      with assms raw ne show ?thesis by (auto simp: node_parse_and_visualize_def)
    next
      case (Some tbl)
      obtain header rows where tbl: "tbl = (header, rows)" by (cases tbl)
      show ?thesis
      proof (cases "maybe_chart plt pyfloat fromisoformat header rows (question st)")
        case (Inl e)
        with assms raw ne Some tbl have False
          by (simp add: node_parse_and_visualize_def Let_def split: sum.splits)
        then show ?thesis ..
      next
        case (Inr cp)
        obtain calls p where cp: "cp = (calls, p)" by (cases cp)
        from assms raw ne Some tbl Inr cp show ?thesis
          by (auto simp: node_parse_and_visualize_def Let_def split: sum.splits)
      qed
    qed
  qed
qed





lemma example_table:
  "parse_csv_from_text example_csv = Some ([ustr ''Date'', ustr ''Revenue''],
           [[ustr ''2024-01-01'', ustr ''100.0''], [ustr ''2024-01-02'', ustr ''150.0'']])"
  by (simp add: example_csv_def parse_ev)






text \<open>
  Claim C9.  Every node returns a copy of its input in which only the fields it sets are
  changed: the question is the input's question, and each field the node does not set
  keeps the value it had.  The last node of the SQL variant sets only the message when it
  finds no table.
\<close>

theorem nodes_copy_with_update:
  "(AgentState.question (node_plan lower a) = AgentState.question a \<and>
    answer (node_plan lower a) = answer a) \<and>
   (AgentState.question (node_kpi a) = AgentState.question a \<and> intent (node_kpi a) = intent a) \<and>
   (AgentState.question (node_sentiment a) = AgentState.question a \<and>
    intent (node_sentiment a) = intent a) \<and>
   (AgentState.question (node_fallback a) = AgentState.question a \<and>
    intent (node_fallback a) = intent a) \<and>
   (node_agent sql_agent st = Inr s1 \<longrightarrow>
      question s1 = question st \<and> result_csv_path s1 = result_csv_path st \<and>
      chart_png_path s1 = chart_png_path st \<and> message s1 = message st) \<and>
   (node_parse_and_visualize file_write plt pyfloat fromisoformat st = Inr (s2, eff) \<longrightarrow>
      question s2 = question st \<and> raw_output s2 = raw_output st \<and>
      (Option.bind (raw_output st) parse_csv_from_text = None \<longrightarrow>
         result_csv_path s2 = result_csv_path st \<and> chart_png_path s2 = chart_png_path st))"
proof -
  have router: "(AgentState.question (node_plan lower a) = AgentState.question a \<and>
    answer (node_plan lower a) = answer a) \<and>
   (AgentState.question (node_kpi a) = AgentState.question a \<and> intent (node_kpi a) = intent a) \<and>
   (AgentState.question (node_sentiment a) = AgentState.question a \<and>
    intent (node_sentiment a) = intent a) \<and>
   (AgentState.question (node_fallback a) = AgentState.question a \<and>
    intent (node_fallback a) = intent a)"
    by (simp add: node_plan_def Let_def node_kpi_def node_sentiment_def node_fallback_def)
  have agent: "node_agent sql_agent st = Inr s1 \<longrightarrow>
      question s1 = question st \<and> result_csv_path s1 = result_csv_path st \<and>
      chart_png_path s1 = chart_png_path st \<and> message s1 = message st"
    by (auto simp: node_agent_def split: sum.splits)
  have pv: "node_parse_and_visualize file_write plt pyfloat fromisoformat st = Inr (s2, eff) \<longrightarrow>
      question s2 = question st \<and> raw_output s2 = raw_output st \<and>
      (Option.bind (raw_output st) parse_csv_from_text = None \<longrightarrow>
         result_csv_path s2 = result_csv_path st \<and> chart_png_path s2 = chart_png_path st)"
    using node_parse_and_visualize_result [of file_write plt pyfloat fromisoformat st s2 eff]
    by blast
  from router agent pv show ?thesis by blast
qed

theorem nodes_copy_with_update_witness:
  "\<exists>s1 s2 eff.
     node_agent example_agent (new_SqlAgentState (ustr ''Show revenue trend'')) = Inr s1 \<and>
     node_parse_and_visualize example_write example_plt example_float example_date
       (new_SqlAgentState (ustr ''Show revenue trend'')) = Inr (s2, eff) \<and>
     question s1 = ustr ''Show revenue trend'' \<and> message s1 = None \<and>
     question s2 = ustr ''Show revenue trend'' \<and> raw_output s2 = None \<and>
     result_csv_path s2 = None \<and> chart_png_path s2 = None"
proof -
  let ?st = "new_SqlAgentState (ustr ''Show revenue trend'')"
  have a: "node_agent example_agent ?st = Inr (?st\<lparr>raw_output := Some example_csv\<rparr>)"
    by (simp add: node_agent_def example_agent_def)
  have p: "node_parse_and_visualize example_write example_plt example_float example_date ?st =
             Inr (?st\<lparr>message := Some (ustr ''No output from agent.'')\<rparr>, [])"
    by (simp add: node_parse_and_visualize_def new_SqlAgentState_def)
  have b: "Option.bind (raw_output ?st) parse_csv_from_text = None"
    by (simp add: new_SqlAgentState_def)
  from nodes_copy_with_update [where sql_agent = example_agent and file_write = example_write
      and plt = example_plt and pyfloat = example_float
      and fromisoformat = example_date and st = ?st
      and ?s1.0 = "?st\<lparr>raw_output := Some example_csv\<rparr>"
      and ?s2.0 = "?st\<lparr>message := Some (ustr ''No output from agent.'')\<rparr>"
      and eff = "[]"] a p b
  have "question (?st\<lparr>raw_output := Some example_csv\<rparr>) = question ?st \<and>
        message (?st\<lparr>raw_output := Some example_csv\<rparr>) = message ?st \<and>
        question (?st\<lparr>message := Some (ustr ''No output from agent.'')\<rparr>) = question ?st \<and>
        raw_output (?st\<lparr>message := Some (ustr ''No output from agent.'')\<rparr>) = raw_output ?st \<and>
        result_csv_path (?st\<lparr>message := Some (ustr ''No output from agent.'')\<rparr>)
          = result_csv_path ?st \<and>
        chart_png_path (?st\<lparr>message := Some (ustr ''No output from agent.'')\<rparr>)
          = chart_png_path ?st"
    by blast
  moreover have "question ?st = ustr ''Show revenue trend''" "message ?st = None"
    "raw_output ?st = None" "result_csv_path ?st = None" "chart_png_path ?st = None"
    by (simp_all add: new_SqlAgentState_def)
  ultimately show ?thesis using a p by metis
qed

text \<open>
  Claim C10.  On a state whose raw output is absent or the empty string, the last node of
  the SQL variant returns the state with the message \<open>No output from agent.\<close>, leaves
  the two paths as they were, saves no table and makes no plotting call.
\<close>

theorem no_output_message:
  assumes "raw_output st = None \<or> raw_output st = Some []"
  shows "\<exists>s'. node_parse_and_visualize file_write plt pyfloat fromisoformat st = Inr (s', []) \<and>
           message s' = Some (ustr ''No output from agent.'') \<and>
           result_csv_path s' = result_csv_path st \<and> chart_png_path s' = chart_png_path st \<and>
           question s' = question st \<and> raw_output s' = raw_output st"
  using assms by (auto simp: node_parse_and_visualize_def)

theorem no_output_message_witness:
  "(\<exists>s'. node_parse_and_visualize example_write example_plt example_float example_date
            (new_SqlAgentState (ustr ''Show revenue trend'')) = Inr (s', []) \<and>
          message s' = Some (ustr ''No output from agent.'') \<and>
          result_csv_path s' = None \<and> chart_png_path s' = None) \<and>
   (\<exists>s'. node_parse_and_visualize example_write example_plt example_float example_date
            ((new_SqlAgentState (ustr ''Show revenue trend''))\<lparr>raw_output := Some []\<rparr>)
            = Inr (s', []) \<and>
          message s' = Some (ustr ''No output from agent.'') \<and>
          result_csv_path s' = None \<and> chart_png_path s' = None)"
proof -
  let ?st = "new_SqlAgentState (ustr ''Show revenue trend'')"
  have h1: "raw_output ?st = None \<or> raw_output ?st = Some []"
    by (simp add: new_SqlAgentState_def)
  have h2: "raw_output (?st\<lparr>raw_output := Some []\<rparr>) = None \<or>
            raw_output (?st\<lparr>raw_output := Some []\<rparr>) = Some []"
    by simp
  have v: "result_csv_path ?st = None" "chart_png_path ?st = None"
    by (simp_all add: new_SqlAgentState_def)
  from no_output_message [OF h1, of example_write example_plt example_float example_date]
    no_output_message [OF h2, of example_write example_plt example_float example_date] v
  show ?thesis by auto
qed

text \<open>
  Claim C3.  When the reader gives a header and data rows and one data row has another
  number of fields than the header, the extraction returns \<open>None\<close>; a table that is
  returned is the whole output of the reader, no row left out, and each of its rows has
  as many fields as the header.
\<close>

theorem ragged_row_discards_table:
  "(csv_reader_list (cleaned text) = Inr (header # data) \<and>
    list_ex (\<lambda>r. length r \<noteq> length header) data \<longrightarrow> parse_csv_from_text text = None) \<and>
   (parse_csv_from_text text = Some (h, d) \<longrightarrow>
      csv_reader_list (cleaned text) = Inr (h # d) \<and> list_all (\<lambda>r. length r = length h) d)"
  by (auto simp: parse_csv_from_text_def list_ex_iff list_all_iff
      split: if_splits sum.splits list.splits)

lemma ragged_rows:
  "csv_reader_list (cleaned (ustr ''A,B'' @ [10] @ ustr ''1,2'' @ [10] @ ustr ''3'')) =
     Inr [[ustr ''A'', ustr ''B''], [ustr ''1'', ustr ''2''], [ustr ''3'']]"
  by (simp add: parse_ev)

theorem ragged_row_discards_table_witness:
  "csv_reader_list (cleaned (ustr ''A,B'' @ [10] @ ustr ''1,2'' @ [10] @ ustr ''3'')) =
     Inr [[ustr ''A'', ustr ''B''], [ustr ''1'', ustr ''2''], [ustr ''3'']] \<and>
   parse_csv_from_text (ustr ''A,B'' @ [10] @ ustr ''1,2'' @ [10] @ ustr ''3'') = None \<and>
   csv_reader_list (cleaned example_csv) =
     Inr [[ustr ''Date'', ustr ''Revenue''],
          [ustr ''2024-01-01'', ustr ''100.0''], [ustr ''2024-01-02'', ustr ''150.0'']]"
proof -
  have ex: "list_ex (\<lambda>r. length r \<noteq> length [ustr ''A'', ustr ''B''])
              [[ustr ''1'', ustr ''2''], [ustr ''3'']]"
    by simp
  from ragged_row_discards_table
    [of "ustr ''A,B'' @ [10] @ ustr ''1,2'' @ [10] @ ustr ''3''"
        "[ustr ''A'', ustr ''B'']" "[[ustr ''1'', ustr ''2''], [ustr ''3'']]"]
    ragged_rows ex
  have 1: "parse_csv_from_text (ustr ''A,B'' @ [10] @ ustr ''1,2'' @ [10] @ ustr ''3'') = None"
    by blast
  from ragged_row_discards_table
    [of example_csv _ _ "[ustr ''Date'', ustr ''Revenue'']"
        "[[ustr ''2024-01-01'', ustr ''100.0''], [ustr ''2024-01-02'', ustr ''150.0'']]"]
    example_table
  have 2: "csv_reader_list (cleaned example_csv) =
     Inr [[ustr ''Date'', ustr ''Revenue''],
          [ustr ''2024-01-01'', ustr ''100.0''], [ustr ''2024-01-02'', ustr ''150.0'']]"
    by blast
  from ragged_rows 1 2 show ?thesis by blast
qed

lemma fenced_first_line:
  "first_line (ustr ''```csv'' @ [10] @ T @ [10] @ ustr ''```'') = ustr ''```csv''"
  by (simp add: first_line_def strip_def splitlines_def ustr_def isspace_def is_linebreak_def)

text \<open>
  Claim C2.  The claim is that a table wrapped in a \<open>csv\<close> fence, with the fence
  markers on lines of their own, parses to the same table as the text inside.  The code
  does not do so: the first line of the wrapped text is the fence marker, which holds no
  comma, and the check of the first line returns \<open>None\<close> before the fences are
  removed, for every text \<open>T\<close> inside; the text \<open>a,b\<close>, \<open>1,2\<close> itself
  parses to a table.  Past that check the wrapped text would fare no better: removing the
  markers leaves their line ends, so the reader's first record, the header, is empty.
\<close>

theorem fenced_table_rejected:
  "parse_csv_from_text (ustr ''```csv'' @ [10] @ T @ [10] @ ustr ''```'') = None \<and>
   parse_csv_from_text (ustr ''a,b'' @ [10] @ ustr ''1,2'') =
     Some ([ustr ''a'', ustr ''b''], [[ustr ''1'', ustr ''2'']]) \<and>
   csv_reader_list (cleaned (ustr ''```csv'' @ [10] @ ustr ''a,b'' @ [10] @ ustr ''1,2'' @ [10] @
                             ustr ''```'')) =
     Inr [[], [ustr ''a'', ustr ''b''], [ustr ''1'', ustr ''2'']]"
proof (intro conjI)
  have "count_list (ustr ''```csv'') 44 = 0"
    by (simp add: ustr_def)
  then show "parse_csv_from_text (ustr ''```csv'' @ [10] @ T @ [10] @ ustr ''```'') = None"
    unfolding parse_csv_from_text_def fenced_first_line by simp
next
  show "parse_csv_from_text (ustr ''a,b'' @ [10] @ ustr ''1,2'') =
     Some ([ustr ''a'', ustr ''b''], [[ustr ''1'', ustr ''2'']])"
    by (simp add: parse_ev)
next
  show "csv_reader_list (cleaned (ustr ''```csv'' @ [10] @ ustr ''a,b'' @ [10] @ ustr ''1,2'' @
                                  [10] @ ustr ''```'')) =
     Inr [[], [ustr ''a'', ustr ''b''], [ustr ''1'', ustr ''2'']]"
    by (simp add: parse_ev)
qed

end
